theory Spec2Isabelle
  imports Complex_Main
begin

section \<open>Numbers and errors\<close>

text \<open>
  The source computes with numpy and pandas floats. A float is modelled as a real number
  or as the not-a-number value that numpy and pandas give to an empty selection and
  propagate through arithmetic. Rounding is modelled where the source cancels (lines 102
  and 103, further down) and nowhere else; the infinities are outside the model.
\<close>

datatype npf = NaN | Fin real

fun nf_mul :: "npf \<Rightarrow> npf \<Rightarrow> npf" where
  "nf_mul (Fin a) (Fin b) = Fin (a * b)"
| "nf_mul _ _ = NaN"

fun nf_sub :: "npf \<Rightarrow> npf \<Rightarrow> npf" where
  "nf_sub (Fin a) (Fin b) = Fin (a - b)"
| "nf_sub _ _ = NaN"

fun nf_add :: "npf \<Rightarrow> npf \<Rightarrow> npf" where
  "nf_add (Fin a) (Fin b) = Fin (a + b)"
| "nf_add _ _ = NaN"

fun nf_map :: "(real \<Rightarrow> real) \<Rightarrow> npf \<Rightarrow> npf" where
  \<comment> \<open>A function of one argument (\<open>np.exp\<close>, \<open>**2\<close>) maps NaN to NaN.\<close>
  "nf_map f (Fin a) = Fin (f a)"
| "nf_map f NaN = NaN"

text \<open>
  A quotient by zero is an infinity or NaN in numpy. The data model has prices above zero;
  the model returns NaN for a zero divisor, and every theorem about a quotient assumes
  positive prices.
\<close>

fun nf_div :: "npf \<Rightarrow> npf \<Rightarrow> npf" where
  "nf_div (Fin a) (Fin b) = (if b = 0 then NaN else Fin (a / b))"
| "nf_div _ _ = NaN"

definition np_sqrt :: "real \<Rightarrow> npf" where
  \<comment> \<open>\<open>np.sqrt\<close> of a negative number is NaN (with a warning), not an exception.\<close>
  "np_sqrt x = (if x < 0 then NaN else Fin (sqrt x))"

text \<open>
  The exceptions the source can raise, all of them Python's or numpy's own, followed by
  the error names of the specification, which no path of the source raises.
\<close>

datatype error =
    IndexError | KeyError | TypeError | ValueError | ZeroDivisionError | UnboundLocalError
  | InsufficientDataError | NoPositiveReturnsError | UnsupportedModelError
  | InvalidModelError | InvalidRequestError

fun finite_values :: "npf list \<Rightarrow> real list" where
  "finite_values [] = []"
| "finite_values (NaN # vs) = finite_values vs"
| "finite_values (Fin x # vs) = x # finite_values vs"

section \<open>Historical statistics (\<open>monte_carlo_simulation\<close>, lines 23 to 28)\<close>

text \<open>
  A pandas Series is a list of labelled values; the labels of the downloaded frame are its
  row positions.
\<close>

type_synonym series = "(nat \<times> npf) list"

definition adj_close_series :: "real list \<Rightarrow> series" where
  "adj_close_series prices = zip [0..<length prices] (map Fin prices)"

definition shift :: "series \<Rightarrow> series" where
  \<comment> \<open>\<open>Series.shift(1)\<close>: every value moves one row down, the first row is NaN.\<close>
  "shift s = zip (map fst s) (case s of [] \<Rightarrow> [] | _ # _ \<Rightarrow> NaN # butlast (map snd s))"

definition pct_change :: "series \<Rightarrow> series" where
  \<comment> \<open>pandas computes \<open>data / data.shift(1) - 1\<close>.\<close>
  "pct_change s =
     zip (map fst s)
         (map2 (\<lambda>cur prev. nf_sub (nf_div cur prev) (Fin 1)) (map snd s) (map snd (shift s)))"

definition dropna :: "series \<Rightarrow> series" where
  "dropna s = filter (\<lambda>(i, v). v \<noteq> NaN) s"

definition set_column :: "nat list \<Rightarrow> series \<Rightarrow> npf list" where
  \<comment> \<open>\<open>df[col] = s\<close> aligns \<open>s\<close> on the frame's index; a row \<open>s\<close> lacks is NaN.\<close>
  "set_column index s = map (\<lambda>i. case map_of s i of None \<Rightarrow> NaN | Some v \<Rightarrow> v) index"

definition pd_mean :: "npf list \<Rightarrow> npf" where
  \<comment> \<open>\<open>Series.mean()\<close> skips NaN; the mean of no value is NaN.\<close>
  "pd_mean col =
     (let vs = finite_values col
      in if vs = [] then NaN else Fin (sum_list vs / real (length vs)))"

definition pd_std :: "npf list \<Rightarrow> npf" where
  \<comment> \<open>\<open>Series.std()\<close> skips NaN and divides by \<open>count - 1\<close> (\<open>ddof=1\<close>); NaN when \<open>count \<le> 1\<close>.\<close>
  "pd_std col =
     (let vs = finite_values col; n = length vs
      in if n \<le> 1 then NaN
         else let avg = sum_list vs / real n
              in Fin (sqrt (sum_list (map (\<lambda>x. (avg - x)\<^sup>2) vs) / real (n - 1))))"

definition estimate_parameters :: "real list \<Rightarrow> int \<Rightarrow> error + (real \<times> npf \<times> npf)" where
  \<comment> \<open>Lines 23 to 28, the specification's \<open>estimateParameters\<close>. \<open>adj_close\<close> is the downloaded
     column; \<open>iloc[-1]\<close> of an empty column raises IndexError. The result is
     \<open>(initial_price, drift, volatility)\<close>.\<close>
  "estimate_parameters adj_close lookback_days =
     (let daily_return =
            set_column [0..<length adj_close] (dropna (pct_change (adj_close_series adj_close)))
      in if adj_close = [] then Inl IndexError
         else let initial_price = last adj_close;
                  drift = nf_mul (pd_mean daily_return) (Fin (real_of_int lookback_days));
                  volatility = nf_mul (pd_std daily_return) (np_sqrt (real_of_int lookback_days))
              in Inr (initial_price, drift, volatility))"

section \<open>Jump calibration (\<open>calibrate_jump_diffusion_params\<close>)\<close>

definition np_mean :: "real list \<Rightarrow> npf" where
  \<comment> \<open>\<open>np.mean\<close> of an empty array is NaN (with a warning).\<close>
  "np_mean xs = (if xs = [] then NaN else Fin (sum_list xs / real (length xs)))"

definition np_std :: "real list \<Rightarrow> npf" where
  \<comment> \<open>\<open>np.std\<close> with its default \<open>ddof=0\<close>: the root of the mean squared deviation.\<close>
  "np_std xs =
     (if xs = [] then NaN
      else let arrmean = sum_list xs / real (length xs);
               x = map (\<lambda>a. a - arrmean) xs
           in Fin (sqrt (sum_list (map (\<lambda>d. d * d) x) / real (length xs))))"

definition calibrate_jump_diffusion_params :: "real list \<Rightarrow> error + (string \<times> npf) list" where
  \<comment> \<open>\<open>len(...) / len(returns)\<close> divides Python integers: ZeroDivisionError on an empty array.\<close>
  "calibrate_jump_diffusion_params returns =
     (let mean_jump_size = np_mean (filter (\<lambda>r. r > 0) returns);
          std_jump_size = np_std (filter (\<lambda>r. r > 0) returns)
      in if length returns = 0 then Inl ZeroDivisionError
         else let jump_intensity =
                    real (length (filter (\<lambda>r. r > 0) returns)) / real (length returns)
              in Inr [(''jump_size_mean'', mean_jump_size),
                      (''jump_size_std'', std_jump_size),
                      (''jump_intensity'', Fin jump_intensity)])"

section \<open>The random generator\<close>

text \<open>
  \<open>np.random\<close> is numpy's global generator. Its state is threaded through the model; what
  the generator draws is a parameter: the state a seed gives, the matrix of standard normal
  draws and the matrix of Poisson counts of a requested shape together with the state that
  follows, and the largest Poisson rate the platform accepts.
\<close>

record 's generator =
  seeded :: "int \<Rightarrow> 's"
  standard_normal :: "nat \<Rightarrow> nat \<Rightarrow> 's \<Rightarrow> real list list \<times> 's"
  poisson :: "real \<Rightarrow> nat \<Rightarrow> nat \<Rightarrow> 's \<Rightarrow> nat list list \<times> 's"
  poisson_lam_max :: real

text \<open>\<open>np.random.seed(n)\<close> replaces the global state, whatever it was.\<close>

definition np_random_seed :: "'s generator \<Rightarrow> int \<Rightarrow> 's \<Rightarrow> 's" where
  "np_random_seed G n g = seeded G n"

text \<open>
  \<open>np.random.normal(loc, scale, size=(rows, cols))\<close> is \<open>loc + scale * z\<close> for standard normal
  draws \<open>z\<close>. A negative scale or a negative dimension raises ValueError; a NaN scale is
  not negative, and with a NaN location or scale every draw is NaN.
\<close>

definition np_random_normal ::
  "'s generator \<Rightarrow> npf \<Rightarrow> npf \<Rightarrow> int \<Rightarrow> int \<Rightarrow> 's \<Rightarrow> error + (npf list list \<times> 's)" where
  "np_random_normal G loc scale rows cols g =
     (if (case scale of NaN \<Rightarrow> False | Fin s \<Rightarrow> s < 0) \<or> rows < 0 \<or> cols < 0 then Inl ValueError
      else case standard_normal G (nat rows) (nat cols) g of
             (z, g') \<Rightarrow> Inr (map (map (\<lambda>x. nf_add loc (nf_mul scale (Fin x)))) z, g'))"

text \<open>
  \<open>np.random.poisson(lam, size=(rows, cols))\<close> raises ValueError for a rate that is negative
  or NaN, for a rate above the generator's maximum and for a negative dimension.
\<close>

definition np_random_poisson ::
  "'s generator \<Rightarrow> npf \<Rightarrow> int \<Rightarrow> int \<Rightarrow> 's \<Rightarrow> error + (nat list list \<times> 's)" where
  "np_random_poisson G lam rows cols g =
     (case lam of
        NaN \<Rightarrow> Inl ValueError
      | Fin l \<Rightarrow>
          if l < 0 \<or> poisson_lam_max G < l \<or> rows < 0 \<or> cols < 0 then Inl ValueError
          else Inr (poisson G l (nat rows) (nat cols) g))"

section \<open>Double arithmetic where the source cancels (lines 102 and 103)\<close>

text \<open>
  Line 102 subtracts one from an exponential and line 103 adds the one back. In doubles the
  two steps do not cancel, so they are modelled as IEEE double operations: the exact
  result rounded to the nearest double, a tie going to the even neighbour. A double whose
  magnitude lies between two to the \<open>e\<close> and two to the \<open>e + 1\<close> has 53 significant bits, so its
  neighbours are two to the \<open>e - 52\<close> apart. Overflow of a huge exponential and subnormal
  results are left out. The rest of the arithmetic is exact.
\<close>

definition double_spacing :: "real \<Rightarrow> real" where
  "double_spacing x = 2 powr (of_int \<lfloor>log 2 \<bar>x\<bar>\<rfloor> - 52)"

definition round_half_even :: "real \<Rightarrow> int" where
  "round_half_even q =
     (let f = \<lfloor>q\<rfloor>; r = q - of_int f
      in if r < 1 / 2 then f else if 1 / 2 < r then f + 1 else if even f then f else f + 1)"

definition round_double :: "real \<Rightarrow> real" where
  "round_double x =
     (if x = 0 then 0 else of_int (round_half_even (x / double_spacing x)) * double_spacing x)"

definition fl_add :: "real \<Rightarrow> real \<Rightarrow> real" where
  "fl_add a b = round_double (a + b)"

definition fl_sub :: "real \<Rightarrow> real \<Rightarrow> real" where
  "fl_sub a b = round_double (a - b)"

section \<open>Path generation (\<open>generate_jump_diffusion_returns\<close>, \<open>monte_carlo_simulation\<close>)\<close>

text \<open>
  A matrix is the list of its rows; the elementwise operation on two matrices of one shape
  is \<open>mat_map2\<close>.
\<close>

definition mat_map2 :: "('a \<Rightarrow> 'b \<Rightarrow> 'c) \<Rightarrow> 'a list list \<Rightarrow> 'b list list \<Rightarrow> 'c list list" where
  "mat_map2 f a b = map2 (\<lambda>ra rb. map2 f ra rb) a b"

definition generate_jump_diffusion_returns ::
  "'s generator \<Rightarrow> 's \<Rightarrow> npf \<Rightarrow> npf \<Rightarrow> npf \<Rightarrow> npf \<Rightarrow> npf \<Rightarrow> int \<Rightarrow> int \<Rightarrow>
   error + (npf list list \<times> 's)" where
  "generate_jump_diffusion_returns G g jump_size_mean jump_size_std jump_intensity
       drift volatility days simulations =
     (let g0 = np_random_seed G 42 g
      in if days = 0 then Inl ZeroDivisionError
         else
           let dt = 1 / real_of_int days
           in case np_random_poisson G (nf_mul jump_intensity (Fin dt)) days simulations g0 of
                Inl e \<Rightarrow> Inl e
              | Inr (jump_process, g1) \<Rightarrow>
                  (case np_random_normal G jump_size_mean jump_size_std days simulations g1 of
                     Inl e \<Rightarrow> Inl e
                   | Inr (jump_sizes, g2) \<Rightarrow>
                       let jump_returns =
                             mat_map2 (\<lambda>x k. nf_mul x (Fin (real k))) jump_sizes jump_process;
                           drift_returns =
                             nf_mul (nf_sub drift (nf_mul (Fin 0.5) (nf_map (\<lambda>v. v\<^sup>2) volatility)))
                               (Fin dt)
                       in (case np_random_normal G (Fin 0) (np_sqrt dt) days simulations g2 of
                             Inl e \<Rightarrow> Inl e
                           | Inr (shocks, g3) \<Rightarrow>
                               let diffusion_returns = map (map (\<lambda>x. nf_mul volatility x)) shocks;
                                   total_returns =
                                     mat_map2
                                       (\<lambda>d j. nf_map (\<lambda>e. fl_sub e 1)
                                                (nf_map exp (nf_add (nf_add drift_returns d) j)))
                                       diffusion_returns jump_returns
                               in Inr (map (map (nf_map (\<lambda>t. fl_add 1 t))) total_returns, g3))))"

text \<open>\<open>np.cumprod(m, axis=0)\<close>: each row is the elementwise product of the rows down to it.\<close>

fun cumprod_from :: "npf list \<Rightarrow> npf list list \<Rightarrow> npf list list" where
  "cumprod_from acc [] = []"
| "cumprod_from acc (row # rows) =
     (let acc' = map2 nf_mul acc row in acc' # cumprod_from acc' rows)"

definition np_cumprod :: "npf list list \<Rightarrow> npf list list" where
  "np_cumprod m = (case m of [] \<Rightarrow> [] | row # rows \<Rightarrow> row # cumprod_from row rows)"

text \<open>
  \<open>np.clip(m, a_min, a_max)\<close> is \<open>minimum(a_max, maximum(m, a_min))\<close>, entry by entry; both
  propagate NaN, so a NaN entry stays NaN.
\<close>

definition np_clip :: "npf list list \<Rightarrow> real \<Rightarrow> real \<Rightarrow> npf list list" where
  "np_clip m a_min a_max = map (map (nf_map (\<lambda>x. min (max x a_min) a_max))) m"

text \<open>
  \<open>jump_params\<close> is \<open>None\<close> or a dictionary from names to numbers. \<open>d[k]\<close> raises KeyError
  for a missing key and TypeError when \<open>d\<close> is \<open>None\<close>; in a condition \<open>None\<close> and the empty
  dictionary are false, every other dictionary is true.
\<close>

definition py_getitem :: "(string \<times> 'v) list option \<Rightarrow> string \<Rightarrow> error + 'v" where
  "py_getitem obj k =
     (case obj of
        None \<Rightarrow> Inl TypeError
      | Some d \<Rightarrow> (case map_of d k of None \<Rightarrow> Inl KeyError | Some v \<Rightarrow> Inr v))"

definition truthy :: "(string \<times> 'v) list option \<Rightarrow> bool" where
  "truthy jump_params = (case jump_params of None \<Rightarrow> False | Some d \<Rightarrow> d \<noteq> [])"

text \<open>
  Lines 33 to 51: the \<open>if\<close>/\<open>elif\<close> chain that binds \<open>daily_returns\<close>. The chain has no
  \<open>else\<close>; where no branch is taken the name is unbound, and line 53, which reads it, raises
  UnboundLocalError.
\<close>

definition daily_returns_of ::
  "'s generator \<Rightarrow> 's \<Rightarrow> npf \<Rightarrow> npf \<Rightarrow> string \<Rightarrow> int \<Rightarrow> int \<Rightarrow> (string \<times> npf) list option \<Rightarrow>
   error + (npf list list \<times> 's)" where
  "daily_returns_of G g0 drift volatility distribution days simulations jump_params =
     (if distribution = ''lognormal'' then
        case np_random_normal G (Fin 0) (Fin 1) days simulations g0 of
          Inl e \<Rightarrow> Inl e
        | Inr (z, g1) \<Rightarrow>
            Inr (map (map (\<lambda>x. nf_map exp
                           (nf_add (nf_sub drift (nf_mul (Fin 0.5) (nf_map (\<lambda>v. v\<^sup>2) volatility)))
                              (nf_mul volatility x)))) z, g1)
      else if distribution = ''normal'' then
        case np_random_normal G (Fin 0) (Fin 1) days simulations g0 of
          Inl e \<Rightarrow> Inl e
        | Inr (z, g1) \<Rightarrow>
            Inr (map (map (\<lambda>x. nf_add (nf_sub drift (nf_mul (Fin 0.5) (nf_map (\<lambda>v. v\<^sup>2) volatility)))
                                 (nf_mul volatility x))) z, g1)
      else if distribution = ''jump_diffusion'' \<and> truthy jump_params then
        case py_getitem jump_params ''jump_size_mean'' of
          Inl e \<Rightarrow> Inl e
        | Inr jump_size_mean \<Rightarrow>
            (case py_getitem jump_params ''jump_size_std'' of
               Inl e \<Rightarrow> Inl e
             | Inr jump_size_std \<Rightarrow>
                 (case py_getitem jump_params ''jump_intensity'' of
                    Inl e \<Rightarrow> Inl e
                  | Inr jump_intensity \<Rightarrow>
                      generate_jump_diffusion_returns G g0 jump_size_mean jump_size_std
                        jump_intensity drift volatility days simulations))
      else Inl UnboundLocalError)"

text \<open>
  Lines 29 to 55, from the three values extracted at lines 26 to 28 to the clipped price
  matrix. Drift and volatility arrive as the estimator leaves them, NaN included, and the
  jump parameters as the calibrator leaves them. The result carries the generator state
  the call leaves behind.
\<close>

definition monte_carlo_simulation ::
  "'s generator \<Rightarrow> 's \<Rightarrow> real \<Rightarrow> npf \<Rightarrow> npf \<Rightarrow> string \<Rightarrow> int \<Rightarrow> (string \<times> npf) list option \<Rightarrow>
   error + (npf list list \<times> 's)" where
  "monte_carlo_simulation G g initial_price drift volatility distribution simulations jump_params =
     (let days = 252;
          g0 = np_random_seed G 42 g
      in case daily_returns_of G g0 drift volatility distribution days simulations jump_params of
           Inl e \<Rightarrow> Inl e
         | Inr (daily_returns, g1) \<Rightarrow>
             let price_simulations =
                   map (map (\<lambda>x. nf_mul (Fin initial_price) x)) (np_cumprod daily_returns)
             in Inr (np_clip price_simulations 0.01 3000, g1))"

section \<open>Predicates and reference definitions for the properties\<close>

definition is_matrix :: "nat \<Rightarrow> nat \<Rightarrow> 'a list list \<Rightarrow> bool" where
  "is_matrix r c m \<longleftrightarrow> length m = r \<and> (\<forall>row\<in>set m. length row = c)"

text \<open>
  numpy's contract for \<open>size=(r, c)\<close>: the draws come back in the requested shape. The
  largest accepted Poisson rate is far above one on every platform.
\<close>

definition well_behaved :: "'s generator \<Rightarrow> bool" where
  "well_behaved G \<longleftrightarrow>
     (\<forall>r c g. is_matrix r c (fst (standard_normal G r c g))) \<and>
     (\<forall>lam r c g. is_matrix r c (fst (poisson G lam r c g))) \<and>
     1 \<le> poisson_lam_max G"





text \<open>A small concrete generator, whose state counts the draws made so far.\<close>

definition counter_generator :: "nat generator" where
  "counter_generator =
     \<lparr>seeded = (\<lambda>n. nat n),
      standard_normal = (\<lambda>r c g.
         (map (\<lambda>i. map (\<lambda>j. real ((g + i * c + j) mod 3) - 1) [0..<c]) [0..<r], g + r * c)),
      poisson = (\<lambda>lam r c g.
         (map (\<lambda>i. map (\<lambda>j. (g + i * c + j) mod 2) [0..<c]) [0..<r], g + r * c)),
      poisson_lam_max = 1000\<rparr>"

text \<open>
  The statistics in the words of the specification: the simple return of every adjacent pair
  of prices, the mean, and the standard deviation as the root of the mean squared deviation,
  which is the value the specification's worked scenario reports. \<open>sample_stddev\<close> divides by
  one less than the number of values instead.
\<close>

definition spec_returns :: "real list \<Rightarrow> real list" where
  "spec_returns prices =
     map (\<lambda>i. (prices ! Suc i - prices ! i) / prices ! i) [0..<length prices - 1]"

definition spec_mean :: "real list \<Rightarrow> real" where
  "spec_mean xs = sum_list xs / real (length xs)"

definition spec_stddev :: "real list \<Rightarrow> real" where
  "spec_stddev xs = sqrt (sum_list (map (\<lambda>x. (x - spec_mean xs)\<^sup>2) xs) / real (length xs))"

definition sample_stddev :: "real list \<Rightarrow> real" where
  "sample_stddev xs =
     sqrt (sum_list (map (\<lambda>x. (x - spec_mean xs)\<^sup>2) xs) / real (length xs - 1))"

definition positive_subset :: "real list \<Rightarrow> real list" where
  "positive_subset returns = [r \<leftarrow> returns. 0 < r]"

section \<open>The return column\<close>

lemma finite_values_map_Fin: "finite_values (map Fin xs) = xs"
  by (induction xs) simp_all

lemma map_of_dropna_zip:
  assumes "length xs = n" "i < n"
  shows "map_of (dropna (zip [0..<n] xs)) i = (if xs ! i = NaN then None else Some (xs ! i))"
proof (cases "xs ! i = NaN")
  case True
  have "i \<notin> fst ` set (dropna (zip [0..<n] xs))"
  proof
    assume "i \<in> fst ` set (dropna (zip [0..<n] xs))"
    then obtain v where v: "(i, v) \<in> set (zip [0..<n] xs)" "v \<noteq> NaN"
      by (auto simp: dropna_def)
    then obtain k where "k < n" "[0..<n] ! k = i" "xs ! k = v"
      using assms by (auto simp: set_zip)
    with True v show False by simp
  qed
  then show ?thesis using True by (simp add: map_of_eq_None_iff)
next
  case False
  have d: "distinct (map fst (dropna (zip [0..<n] xs)))"
    using assms(1) by (simp add: dropna_def distinct_map_filter)
  have "(i, xs ! i) \<in> set (zip [0..<n] xs)"
    using assms by (auto simp: set_zip intro!: exI[of _ i])
  then have "(i, xs ! i) \<in> set (dropna (zip [0..<n] xs))"
    using False by (simp add: dropna_def)
  then show ?thesis using d False by simp
qed

lemma set_column_dropna:
  assumes "length xs = n"
  shows "set_column [0..<n] (dropna (zip [0..<n] xs)) = xs"
proof (rule nth_equalityI)
  show "length (set_column [0..<n] (dropna (zip [0..<n] xs))) = length xs"
    using assms by (simp add: set_column_def)
next
  fix i assume "i < length (set_column [0..<n] (dropna (zip [0..<n] xs)))"
  then have i: "i < n" by (simp add: set_column_def)
  then show "set_column [0..<n] (dropna (zip [0..<n] xs)) ! i = xs ! i"
    using map_of_dropna_zip[OF assms i] by (simp add: set_column_def)
qed

lemma pct_change_adj_close:
  assumes "prices \<noteq> []" "\<forall>p\<in>set prices. 0 < p"
  shows "pct_change (adj_close_series prices) =
         zip [0..<length prices] (NaN # map Fin (spec_returns prices))"
proof -
  let ?n = "length prices"
  have n: "0 < ?n" using assms(1) by simp
  have fst: "map fst (adj_close_series prices) = [0..<?n]"
    by (simp add: adj_close_series_def)
  have snd: "map snd (adj_close_series prices) = map Fin prices"
    by (simp add: adj_close_series_def)
  have ne: "adj_close_series prices \<noteq> []"
    using assms(1) by (cases prices) (simp_all add: adj_close_series_def upt_rec)
  have "shift (adj_close_series prices) =
          zip (map fst (adj_close_series prices)) (NaN # butlast (map snd (adj_close_series prices)))"
    using ne by (cases "adj_close_series prices") (simp_all add: shift_def)
  then have sh: "map snd (shift (adj_close_series prices)) = NaN # butlast (map Fin prices)"
    using n by (simp add: fst snd)
  have "map2 (\<lambda>cur prev. nf_sub (nf_div cur prev) (Fin 1)) (map Fin prices)
          (NaN # butlast (map Fin prices)) = NaN # map Fin (spec_returns prices)"
  proof (rule nth_equalityI)
    show "length (map2 (\<lambda>cur prev. nf_sub (nf_div cur prev) (Fin 1)) (map Fin prices)
          (NaN # butlast (map Fin prices))) = length (NaN # map Fin (spec_returns prices))"
      using n by (simp add: spec_returns_def)
  next
    fix i
    assume "i < length (map2 (\<lambda>cur prev. nf_sub (nf_div cur prev) (Fin 1)) (map Fin prices)
          (NaN # butlast (map Fin prices)))"
    then have i: "i < ?n" by simp
    show "map2 (\<lambda>cur prev. nf_sub (nf_div cur prev) (Fin 1)) (map Fin prices)
          (NaN # butlast (map Fin prices)) ! i = (NaN # map Fin (spec_returns prices)) ! i"
    proof (cases i)
      case 0
      then show ?thesis using n by simp
    next
      case (Suc k)
      then have k: "k < ?n - 1" "Suc k < ?n" using i by simp_all
      have pk: "prices ! k \<noteq> 0" using assms(2) k by (metis Suc_lessD less_irrefl nth_mem)
      show ?thesis using Suc k pk
        by (simp add: spec_returns_def nth_butlast diff_divide_distrib)
    qed
  qed
  then show ?thesis by (simp add: pct_change_def fst snd sh)
qed

lemma daily_return_column:
  assumes "prices \<noteq> []" "\<forall>p\<in>set prices. 0 < p"
  shows "set_column [0..<length prices] (dropna (pct_change (adj_close_series prices))) =
         NaN # map Fin (spec_returns prices)"
proof -
  have "length (NaN # map Fin (spec_returns prices)) = length prices"
    using assms(1) by (simp add: spec_returns_def)
  then show ?thesis
    using set_column_dropna[of "NaN # map Fin (spec_returns prices)" "length prices"]
      pct_change_adj_close[OF assms] by simp
qed

lemma pd_mean_returns:
  "rs \<noteq> [] \<Longrightarrow> pd_mean (NaN # map Fin rs) = Fin (spec_mean rs)"
  by (simp add: pd_mean_def finite_values_map_Fin spec_mean_def)

lemma pd_std_returns:
  "pd_std (NaN # map Fin rs) = (if length rs \<le> 1 then NaN else Fin (sample_stddev rs))"
proof -
  have "(\<lambda>x. (sum_list rs / real (length rs) - x)\<^sup>2) = (\<lambda>x. (x - sum_list rs / real (length rs))\<^sup>2)"
    by (rule ext) (simp add: power2_commute)
  then show ?thesis
    by (simp add: pd_std_def finite_values_map_Fin sample_stddev_def spec_mean_def Let_def)
qed

section \<open>The estimator\<close>

text \<open>
  C7, as the code has it. For every series of positive prices with at least two points and
  every lookback that is not negative, the estimator returns the last price, drift equal to
  the mean of the simple period-over-period returns times the lookback, and volatility
  equal to the sample standard deviation (divisor one less than the number of returns) of
  those returns times the square root of the lookback; every adjacent pair of the series
  contributes, whatever the lookback. With exactly two points there is a single return and
  the volatility is NaN.
\<close>

theorem estimate_scaled_sample_statistics:
  assumes "\<forall>p\<in>set prices. 0 < p" and "2 \<le> length prices" and "0 \<le> lookback_days"
  shows "estimate_parameters prices lookback_days =
           Inr (last prices,
                Fin (spec_mean (spec_returns prices) * real_of_int lookback_days),
                (if length prices = 2 then NaN
                 else Fin (sample_stddev (spec_returns prices) * sqrt (real_of_int lookback_days))))"
proof -
  have ne: "prices \<noteq> []" using assms(2) by auto
  have len: "length (spec_returns prices) = length prices - 1"
    by (simp add: spec_returns_def)
  then have rne: "spec_returns prices \<noteq> []" using assms(2) by auto
  have d: "pd_mean (NaN # map Fin (spec_returns prices)) = Fin (spec_mean (spec_returns prices))"
    using rne by (rule pd_mean_returns)
  have v: "pd_std (NaN # map Fin (spec_returns prices)) =
           (if length prices = 2 then NaN else Fin (sample_stddev (spec_returns prices)))"
    using assms(2) len by (auto simp: pd_std_returns)
  show ?thesis
    using ne assms(3)
    by (simp add: estimate_parameters_def daily_return_column[OF ne assms(1)] d v np_sqrt_def)
qed

theorem estimate_scaled_sample_statistics_witness:
  "(0::real) < 100 \<and> (0::real) < 110 \<and> (0::real) < 132 \<and> (0::real) < 858 / 5 \<and>
   2 \<le> length [100, 110, 132, 858 / 5 :: real] \<and> (0::int) \<le> 4 \<and>
   estimate_parameters [100, 110, 132, 858 / 5] 4 = Inr (858 / 5, Fin (4 / 5), Fin (1 / 5))"
proof -
  have h1: "\<forall>p\<in>set [100, 110, 132, 858 / 5 :: real]. 0 < p" by simp
  have h2: "2 \<le> length [100, 110, 132, 858 / 5 :: real]" by simp
  have h3: "(0::int) \<le> 4" by simp
  have r: "spec_returns [100, 110, 132, 858 / 5] = [1 / 10, 1 / 5, 3 / 10]"
    by (simp add: spec_returns_def upt_rec)
  have s: "sqrt (1 / 100) = 1 / 10"
    by (rule real_sqrt_unique) (simp_all add: power2_eq_square)
  have sd: "sample_stddev [1 / 10, 1 / 5, 3 / 10] = 1 / 10"
    by (simp add: sample_stddev_def spec_mean_def power2_eq_square s)
  show ?thesis
    using estimate_scaled_sample_statistics[OF h1 h2 h3]
    by (simp add: r sd spec_mean_def)
qed

text \<open>
  C7, as the specification states it, fails on a series of two points: the estimator's volatility
  is NaN there, not the standard deviation of the one return times the square root of the
  lookback.
\<close>

theorem estimate_two_points_counterexample:
  "\<not> (\<exists>p. estimate_parameters [100, 110] 1 =
            Inr (p, Fin (spec_mean (spec_returns [100, 110]) * 1),
                 Fin (spec_stddev (spec_returns [100, 110]) * sqrt 1)))"
  by (simp add: estimate_parameters_def adj_close_series_def pct_change_def shift_def dropna_def
      set_column_def pd_mean_def pd_std_def np_sqrt_def upt_rec)

text \<open>
  C8, as the code has it. The empty price series raises IndexError, at the read of the last
  price; a series of one point raises nothing and has NaN for drift and for volatility.
\<close>

theorem estimate_short_series:
  "estimate_parameters [] lookback_days = Inl IndexError \<and>
   estimate_parameters [p] lookback_days = Inr (p, NaN, NaN)"
  by (simp add: estimate_parameters_def adj_close_series_def pct_change_def shift_def dropna_def
      set_column_def pd_mean_def pd_std_def)

text \<open>
  C8, as the specification states it, fails: neither series with fewer than two points raises
  InsufficientDataError.
\<close>

theorem estimate_short_series_counterexample:
  "estimate_parameters [100] 1 = Inr (100, NaN, NaN) \<and>
   estimate_parameters [100] 1 \<noteq> Inl InsufficientDataError \<and>
   estimate_parameters [] 1 \<noteq> Inl InsufficientDataError"
  by (simp add: estimate_parameters_def adj_close_series_def pct_change_def shift_def dropna_def
      set_column_def pd_mean_def pd_std_def)

subsection \<open>The worked scenario\<close>

lemma scenario_value:
  "estimate_parameters [100, 101, 99, 102] 1 =
     Inr (102, Fin (6833 / 999900), Fin (sqrt (211673389 / 333266670000)))"
  by (simp add: estimate_parameters_def adj_close_series_def pct_change_def shift_def dropna_def
      set_column_def pd_mean_def pd_std_def np_sqrt_def upt_rec power2_eq_square)

lemma scenario_sqrt_bounds:
  "2520 / 100000 \<le> sqrt (211673389 / 333266670000)"
  "sqrt (211673389 / 333266670000) \<le> 2521 / 100000"
  by (rule real_le_rsqrt, simp add: power2_eq_square)
     (rule real_le_lsqrt, simp_all add: power2_eq_square)

text \<open>
  The root of the mean squared deviation of the three returns is the 0.0205 of the
  specification's scenario, to one unit of the fourth decimal.
\<close>

lemma scenario_spec_stddev:
  "spec_returns [100, 101, 99, 102] = [1 / 100, - (2 / 101), 1 / 33]"
  "\<bar>spec_stddev (spec_returns [100, 101, 99, 102]) - 205 / 10000\<bar> \<le> 1 / 10000"
proof -
  show r: "spec_returns [100, 101, 99, 102] = [1 / 100, - (2 / 101), 1 / 33]"
    by (simp add: spec_returns_def upt_rec)
  have v: "spec_stddev [1 / 100, - (2 / 101), 1 / 33] = sqrt (211673389 / 499900005000)"
    by (simp add: spec_stddev_def spec_mean_def power2_eq_square)
  have lo: "2057 / 100000 \<le> sqrt (211673389 / 499900005000)"
    by (rule real_le_rsqrt) (simp add: power2_eq_square)
  have hi: "sqrt (211673389 / 499900005000) \<le> 2058 / 100000"
    by (rule real_le_lsqrt) (simp_all add: power2_eq_square)
  show "\<bar>spec_stddev (spec_returns [100, 101, 99, 102]) - 205 / 10000\<bar> \<le> 1 / 10000"
    unfolding r v using lo hi by simp
qed

text \<open>
  C4, as the code has it. For the prices 100, 101, 99, 102 and a lookback of one day the
  return column is NaN followed by 0.0100, -0.0198 and 0.0303 (to four decimals), the drift
  is 0.0068 and the volatility, the sample standard deviation of the three returns, is
  0.0252.
\<close>

theorem scenario_sample_statistics:
  "\<exists>r1 r2 r3 d v.
     set_column [0..<4] (dropna (pct_change (adj_close_series [100, 101, 99, 102]))) =
       [NaN, Fin r1, Fin r2, Fin r3] \<and>
     \<bar>r1 - 100 / 10000\<bar> \<le> 5 / 100000 \<and>
     \<bar>r2 - (- 198 / 10000)\<bar> \<le> 5 / 100000 \<and>
     \<bar>r3 - 303 / 10000\<bar> \<le> 5 / 100000 \<and>
     estimate_parameters [100, 101, 99, 102] 1 = Inr (102, Fin d, Fin v) \<and>
     \<bar>d - 68 / 10000\<bar> \<le> 5 / 100000 \<and>
     \<bar>v - 252 / 10000\<bar> \<le> 5 / 100000"
proof -
  have c: "set_column [0..<4] (dropna (pct_change (adj_close_series [100, 101, 99, 102]))) =
        [NaN, Fin (1 / 100), Fin (- (2 / 101)), Fin (1 / 33)]"
    by (simp add: adj_close_series_def pct_change_def shift_def dropna_def set_column_def upt_rec)
  show ?thesis
    unfolding c scenario_value using scenario_sqrt_bounds
    by (intro exI[of _ "1 / 100"] exI[of _ "- (2 / 101)"] exI[of _ "1 / 33"]
        exI[of _ "6833 / 999900"] exI[of _ "sqrt (211673389 / 333266670000)"]) simp
qed

text \<open>
  C4, as the specification states it, fails in its last number: the volatility the estimator
  returns for the scenario is not within 0.001 of 0.0205.
\<close>

theorem scenario_volatility_counterexample:
  "\<not> (\<exists>p d v. estimate_parameters [100, 101, 99, 102] 1 = Inr (p, d, Fin v) \<and>
            \<bar>v - 205 / 10000\<bar> \<le> 1 / 1000)"
  using scenario_sqrt_bounds by (auto simp: scenario_value)

section \<open>The calibrator\<close>

lemma sqr_dev: "(\<lambda>d. d * d) \<circ> (\<lambda>a. a - c) = (\<lambda>x::real. (x - c)\<^sup>2)"
  by (rule ext) (simp add: power2_eq_square)

lemma np_mean_nonempty: "xs \<noteq> [] \<Longrightarrow> np_mean xs = Fin (spec_mean xs)"
  by (simp add: np_mean_def spec_mean_def)

lemma np_std_nonempty: "xs \<noteq> [] \<Longrightarrow> np_std xs = Fin (spec_stddev xs)"
  by (simp add: np_std_def spec_stddev_def spec_mean_def Let_def sqr_dev)

text \<open>
  C2. For every return series with exactly \<open>n\<close> strictly positive values out of \<open>m\<close>, with
  \<open>n\<close> positive, the calibrator returns the dictionary whose jump intensity is \<open>n / m\<close>,
  whose jump size mean is the mean of the positive subset and whose jump size standard
  deviation is the standard deviation of the positive subset.
\<close>

theorem calibrate_from_positive_subset:
  assumes "n = length (positive_subset returns)" and "m = length returns" and "0 < n"
  shows "calibrate_jump_diffusion_params returns =
           Inr [(''jump_size_mean'', Fin (spec_mean (positive_subset returns))),
                (''jump_size_std'', Fin (spec_stddev (positive_subset returns))),
                (''jump_intensity'', Fin (real n / real m))]"
proof -
  have pos: "filter (\<lambda>r. 0 < r) returns \<noteq> []"
    using assms(1,3) by (auto simp: positive_subset_def)
  then have "returns \<noteq> []" by auto
  then show ?thesis
    using pos assms(1,2)
    by (simp add: calibrate_jump_diffusion_params_def Let_def positive_subset_def
        np_mean_nonempty np_std_nonempty)
qed

theorem calibrate_from_positive_subset_witness:
  "(2::nat) = length (positive_subset [1 / 100, - (1 / 50), 3 / 100, 0]) \<and>
   (4::nat) = length [1 / 100, - (1 / 50), 3 / 100, 0 :: real] \<and> (0::nat) < 2 \<and>
   calibrate_jump_diffusion_params [1 / 100, - (1 / 50), 3 / 100, 0] =
     Inr [(''jump_size_mean'', Fin (1 / 50)), (''jump_size_std'', Fin (1 / 100)),
          (''jump_intensity'', Fin (1 / 2))]"
proof -
  have h1: "(2::nat) = length (positive_subset [1 / 100, - (1 / 50), 3 / 100, 0])"
    by (simp add: positive_subset_def)
  have h2: "(4::nat) = length [1 / 100, - (1 / 50), 3 / 100, 0 :: real]" by simp
  have h3: "(0::nat) < 2" by simp
  have p: "positive_subset [1 / 100, - (1 / 50), 3 / 100, 0] = [1 / 100, 3 / 100]"
    by (simp add: positive_subset_def)
  have s: "sqrt (1 / 10000) = 1 / 100"
    by (rule real_sqrt_unique) (simp_all add: power2_eq_square)
  have sd: "spec_stddev [1 / 100, 3 / 100] = 1 / 100"
    by (simp add: spec_stddev_def spec_mean_def power2_eq_square s)
  show ?thesis
    using calibrate_from_positive_subset[OF h1 h2 h3] h1
    by (simp add: p sd spec_mean_def)
qed

text \<open>
  C6, as the code has it. The empty return series raises ZeroDivisionError, at the quotient
  of the two lengths; a return series that is not empty and has no strictly positive value
  raises nothing: the calibrator returns NaN for the jump size mean and standard deviation,
  and a jump intensity of zero.
\<close>

theorem calibrate_degenerate:
  "calibrate_jump_diffusion_params [] = Inl ZeroDivisionError \<and>
   (returns \<noteq> [] \<and> (\<forall>r\<in>set returns. r \<le> 0) \<longrightarrow>
    calibrate_jump_diffusion_params returns =
      Inr [(''jump_size_mean'', NaN), (''jump_size_std'', NaN), (''jump_intensity'', Fin 0)])"
proof -
  have "filter (\<lambda>r. 0 < r) returns = []" if "\<forall>r\<in>set returns. r \<le> 0"
    using that by (auto simp: filter_empty_conv not_less)
  then show ?thesis
    by (auto simp: calibrate_jump_diffusion_params_def np_mean_def np_std_def)
qed

theorem calibrate_degenerate_witness:
  "[- (1 / 100), 0 :: real] \<noteq> [] \<and> - (1 / 100) \<le> (0::real) \<and> (0::real) \<le> 0 \<and>
   calibrate_jump_diffusion_params [- (1 / 100), 0] =
     Inr [(''jump_size_mean'', NaN), (''jump_size_std'', NaN), (''jump_intensity'', Fin 0)]"
  using calibrate_degenerate[of "[- (1 / 100), 0]"] by simp

text \<open>
  C6, as the specification states it, fails: the empty series does not raise InsufficientDataError,
  and a series of negative returns raises no NoPositiveReturnsError but returns NaN.
\<close>

theorem calibrate_no_error_counterexample:
  "calibrate_jump_diffusion_params [] \<noteq> Inl InsufficientDataError \<and>
   calibrate_jump_diffusion_params [- (1 / 100), - (1 / 50)] \<noteq> Inl NoPositiveReturnsError \<and>
   calibrate_jump_diffusion_params [- (1 / 100), - (1 / 50)] =
     Inr [(''jump_size_mean'', NaN), (''jump_size_std'', NaN), (''jump_intensity'', Fin 0)]"
  by (simp add: calibrate_jump_diffusion_params_def np_mean_def np_std_def)

section \<open>Double rounding of the growth factor\<close>

lemma floor_log2_half:
  assumes "1 / 2 \<le> y" and "y < (1::real)"
  shows "\<lfloor>log 2 y\<rfloor> = - 1"
proof -
  have y0: "0 < y" using assms(1) by simp
  have "log 2 (1 / 2) \<le> log 2 y" using assms(1) y0 by simp
  moreover have "log 2 (1 / 2) = - 1" by (simp add: log_divide)
  ultimately have lo: "- 1 \<le> log 2 y" by simp
  have "log 2 y < log 2 1" using assms(2) y0 by (subst log_less_cancel_iff) simp_all
  then have hi: "log 2 y < 0" by simp
  show ?thesis using lo hi by (simp add: floor_eq_iff)
qed

lemma round_half_even_below_half:
  assumes "0 \<le> r" and "r < 1 / 2"
  shows "round_half_even (r + of_int n) = n"
proof -
  have f: "\<lfloor>r + of_int n\<rfloor> = n" using assms by (simp add: floor_eq_iff)
  show ?thesis unfolding round_half_even_def Let_def f using assms by simp
qed

lemma round_double_near_minus_one:
  assumes "0 \<le> e" and "e < 1 / 2 ^ 54"
  shows "round_double (e - 1) = - 1"
proof (cases "e = 0")
  case True
  have "double_spacing (- 1) = 2 powr (- 52)" by (simp add: double_spacing_def)
  moreover have "(2::real) powr (- 52) = 1 / 2 ^ 52"
    by (simp add: powr_minus_divide powr_realpow[symmetric])
  ultimately have s: "double_spacing (- 1) = 1 / 2 ^ 52" by simp
  show ?thesis using True by (simp add: round_double_def s round_half_even_def)
next
  case False
  then have e: "0 < e" using assms(1) by simp
  let ?y = "e - 1"
  have a: "\<bar>?y\<bar> = 1 - e" using assms by simp
  have "1 / 2 \<le> 1 - e" "1 - e < 1" using assms e by simp_all
  then have fl: "\<lfloor>log 2 \<bar>?y\<bar>\<rfloor> = - 1" unfolding a by (rule floor_log2_half)
  have "(2::real) powr (- 53) = 1 / 2 ^ 53"
    by (simp add: powr_minus_divide powr_realpow[symmetric])
  then have s: "double_spacing ?y = 1 / 2 ^ 53" by (simp add: double_spacing_def fl)
  have q: "(e - 1) / (1 / 2 ^ 53) = e * 2 ^ 53 + of_int (- (2 ^ 53))"
    by (simp add: algebra_simps)
  have b: "0 \<le> e * 2 ^ 53" "e * 2 ^ 53 < 1 / 2" using e assms(2) by simp_all
  have r: "round_half_even (e * 2 ^ 53 + of_int (- (2 ^ 53))) = - (2 ^ 53)"
    using b by (rule round_half_even_below_half)
  have ne: "?y \<noteq> 0" using assms by simp
  have "round_double ?y = of_int (round_half_even (?y / double_spacing ?y)) * double_spacing ?y"
    unfolding round_double_def using ne by (simp only: if_False)
  also have "\<dots> = of_int (round_half_even (e * 2 ^ 53 + of_int (- (2 ^ 53)))) * (1 / 2 ^ 53)"
    by (simp only: s q)
  also have "\<dots> = of_int (- (2 ^ 53)) * (1 / 2 ^ 53)"
    by (simp only: r)
  also have "\<dots> = - 1" by simp
  finally show ?thesis .
qed

lemma growth_factor_cancels:
  assumes "0 \<le> e" and "e < 1 / 2 ^ 54"
  shows "fl_add 1 (fl_sub e 1) = 0"
  using round_double_near_minus_one[OF assms] by (simp add: fl_add_def fl_sub_def round_double_def)

lemma exp_minus_40_small: "exp (- 40 :: real) < 1 / 2 ^ 54"
proof -
  have "1 + (1 / 2) + (1 / 2)\<^sup>2 / 2 \<le> exp (1 / 2 :: real)"
    by (rule exp_lower_Taylor_quadratic) simp
  then have h: "13 / 8 \<le> exp (1 / 2 :: real)" by (simp add: power2_eq_square)
  have "(13 / 8 :: real) ^ 80 \<le> exp (1 / 2) ^ 80"
    using h by (intro power_mono) simp_all
  also have "exp (1 / 2 :: real) ^ 80 = exp 40"
    by (simp add: exp_of_nat_mult[symmetric])
  finally have "(13 / 8 :: real) ^ 80 \<le> exp 40" .
  moreover have "(2::real) ^ 54 < (13 / 8) ^ 80" by (simp add: power_divide)
  ultimately have "(2::real) ^ 54 < exp 40" by simp
  then have "inverse (exp (40::real)) < inverse (2 ^ 54)"
    by (intro less_imp_inverse_less) simp_all
  then show ?thesis by (simp add: exp_minus inverse_eq_divide)
qed

section \<open>Path generation\<close>

subsection \<open>Shapes\<close>

lemma is_matrix_map: "is_matrix r c m \<Longrightarrow> is_matrix r c (map (map f) m)"
  by (simp add: is_matrix_def)

lemma is_matrix_mat_map2:
  assumes "is_matrix r c a" and "is_matrix r c b"
  shows "is_matrix r c (mat_map2 f a b)"
proof -
  have "length row = c" if "row \<in> set (mat_map2 f a b)" for row
  proof -
    from that obtain ra rb where "(ra, rb) \<in> set (zip a b)" "row = map2 f ra rb"
      by (auto simp: mat_map2_def)
    then show ?thesis
      using assms set_zip_leftD[of ra rb a b] set_zip_rightD[of ra rb a b]
      by (simp add: is_matrix_def)
  qed
  then show ?thesis using assms by (simp add: is_matrix_def mat_map2_def)
qed

lemma mat_map2_nth:
  assumes "is_matrix r c a" and "is_matrix r c b" and "i < r" and "j < c"
  shows "mat_map2 f a b ! i ! j = f (a ! i ! j) (b ! i ! j)"
  using assms by (simp add: is_matrix_def mat_map2_def)

lemma mat_map_nth:
  assumes "is_matrix r c a" and "i < r" and "j < c"
  shows "map (map f) a ! i ! j = f (a ! i ! j)"
  using assms by (simp add: is_matrix_def)





lemma standard_normal_shape:
  assumes "well_behaved G" and "standard_normal G r c g = (z, g')"
  shows "is_matrix r c z"
proof -
  have "is_matrix r c (fst (standard_normal G r c g))"
    using assms(1) by (simp add: well_behaved_def)
  then show ?thesis by (simp add: assms(2))
qed

lemma poisson_shape:
  assumes "well_behaved G" and "poisson G lam r c g = (k, g')"
  shows "is_matrix r c k"
proof -
  have "is_matrix r c (fst (poisson G lam r c g))"
    using assms(1) by (simp add: well_behaved_def)
  then show ?thesis by (simp add: assms(2))
qed

lemma np_random_normal_value:
  assumes "case scale of NaN \<Rightarrow> True | Fin s \<Rightarrow> 0 \<le> s" and "0 \<le> rows" and "0 \<le> cols"
    and "standard_normal G (nat rows) (nat cols) g = (z, g')"
  shows "np_random_normal G loc scale rows cols g =
           Inr (map (map (\<lambda>x. nf_add loc (nf_mul scale (Fin x)))) z, g')"
  using assms by (cases scale) (simp_all add: np_random_normal_def)

lemma np_random_poisson_value:
  assumes "well_behaved G" and "0 \<le> lam" and "lam \<le> 1" and "0 \<le> rows" and "0 \<le> cols"
  shows "np_random_poisson G (Fin lam) rows cols g = Inr (poisson G lam (nat rows) (nat cols) g)"
proof -
  have "lam \<le> poisson_lam_max G" using assms(1,3) by (simp add: well_behaved_def)
  then show ?thesis using assms(2,4,5) by (simp add: np_random_poisson_def)
qed

lemma jump_diffusion_value:
  assumes wb: "well_behaved G"
    and std: "case jump_size_std of NaN \<Rightarrow> True | Fin s \<Rightarrow> 0 \<le> s"
    and int: "0 \<le> jump_intensity" "jump_intensity \<le> 1"
    and days: "0 < days" and sims: "0 \<le> simulations"
    and k: "poisson G (jump_intensity * (1 / real_of_int days)) (nat days) (nat simulations)
              (seeded G 42) = (K, g1)"
    and w: "standard_normal G (nat days) (nat simulations) g1 = (W, g2)"
    and z: "standard_normal G (nat days) (nat simulations) g2 = (Z, g3)"
  shows "generate_jump_diffusion_returns G g jump_size_mean jump_size_std (Fin jump_intensity)
           drift volatility days simulations =
         Inr (map (map (nf_map (\<lambda>t. fl_add 1 t)))
               (mat_map2
                  (\<lambda>d j. nf_map (\<lambda>e. fl_sub e 1)
                     (nf_map exp
                       (nf_add
                         (nf_add
                           (nf_mul (nf_sub drift (nf_mul (Fin 0.5) (nf_map (\<lambda>v. v\<^sup>2) volatility)))
                              (Fin (1 / real_of_int days))) d) j)))
                  (map (map (\<lambda>x. nf_mul volatility x))
                     (map (map (\<lambda>x. nf_add (Fin 0) (nf_mul (Fin (sqrt (1 / real_of_int days))) (Fin x)))) Z))
                  (mat_map2 (\<lambda>x k. nf_mul x (Fin (real k)))
                     (map (map (\<lambda>x. nf_add jump_size_mean (nf_mul jump_size_std (Fin x)))) W) K)), g3)"
proof -
  have lam0: "0 \<le> jump_intensity * (1 / real_of_int days)"
    using int(1) days by simp
  have "jump_intensity * (1 / real_of_int days) \<le> 1 * 1"
    using int days by (intro mult_mono) simp_all
  then have lam1: "jump_intensity * (1 / real_of_int days) \<le> 1" by simp
  have d0: "0 \<le> days" using days by simp
  have p: "np_random_poisson G (nf_mul (Fin jump_intensity) (Fin (1 / real_of_int days))) days
             simulations (seeded G 42) = Inr (K, g1)"
    using np_random_poisson_value[OF wb lam0 lam1 d0 sims] k by simp
  have n1: "np_random_normal G jump_size_mean jump_size_std days simulations g1 =
              Inr (map (map (\<lambda>x. nf_add jump_size_mean (nf_mul jump_size_std (Fin x)))) W, g2)"
    by (rule np_random_normal_value[OF std d0 sims w])
  have sq: "np_sqrt (1 / real_of_int days) = Fin (sqrt (1 / real_of_int days))"
    using days by (simp add: np_sqrt_def)
  have sq0: "case Fin (sqrt (1 / real_of_int days)) of NaN \<Rightarrow> True | Fin s \<Rightarrow> 0 \<le> s"
    using days by simp
  have n2: "np_random_normal G (Fin 0) (np_sqrt (1 / real_of_int days)) days simulations g2 =
              Inr (map (map (\<lambda>x. nf_add (Fin 0) (nf_mul (Fin (sqrt (1 / real_of_int days))) (Fin x)))) Z, g3)"
    unfolding sq by (rule np_random_normal_value[OF sq0 d0 sims z])
  have dz: "days \<noteq> 0" using days by simp
  show ?thesis
    unfolding generate_jump_diffusion_returns_def np_random_seed_def Let_def
    by (simp only: dz if_False p n1 n2 sum.case prod.case)
qed





lemma counter_generator_well_behaved: "well_behaved counter_generator"
  by (simp add: well_behaved_def counter_generator_def is_matrix_def)



subsection \<open>The simulation\<close>




subsection \<open>The jump-diffusion growth factor\<close>

text \<open>
  What lines 92 to 103 return in row \<open>i\<close> and column \<open>j\<close>, for numbers as parameters: the
  exponential of the drift term, the diffusion term and the jump term, less one and plus one
  again in double arithmetic.
\<close>

lemma jump_diffusion_entry:
  assumes wb: "well_behaved G"
    and std: "0 \<le> jump_size_std"
    and int: "0 \<le> jump_intensity" "jump_intensity \<le> 1"
    and days: "0 < days" and sims: "0 \<le> simulations"
    and k: "poisson G (jump_intensity * (1 / real_of_int days)) (nat days) (nat simulations)
              (seeded G 42) = (K, g1)"
    and w: "standard_normal G (nat days) (nat simulations) g1 = (W, g2)"
    and z: "standard_normal G (nat days) (nat simulations) g2 = (Z, g3)"
    and i: "i < nat days" and j: "j < nat simulations"
  shows "\<exists>R. generate_jump_diffusion_returns G g (Fin jump_size_mean) (Fin jump_size_std)
               (Fin jump_intensity) (Fin drift) (Fin volatility) days simulations = Inr (R, g3) \<and>
             R ! i ! j =
               Fin (fl_add 1
                     (fl_sub
                       (exp ((drift - 0.5 * volatility\<^sup>2) * (1 / real_of_int days)
                             + volatility * (0 + sqrt (1 / real_of_int days) * (Z ! i ! j))
                             + (jump_size_mean + jump_size_std * (W ! i ! j)) * real (K ! i ! j)))
                       1))"
proof -
  let ?r = "nat days" and ?c = "nat simulations"
  have mK: "is_matrix ?r ?c K" by (rule poisson_shape[OF wb k])
  have mW: "is_matrix ?r ?c W" by (rule standard_normal_shape[OF wb w])
  have mZ: "is_matrix ?r ?c Z" by (rule standard_normal_shape[OF wb z])
  let ?W' = "map (map (\<lambda>x. nf_add (Fin jump_size_mean) (nf_mul (Fin jump_size_std) (Fin x)))) W"
  let ?Z' = "map (map (\<lambda>x. nf_add (Fin 0) (nf_mul (Fin (sqrt (1 / real_of_int days))) (Fin x)))) Z"
  let ?D = "map (map (\<lambda>x. nf_mul (Fin volatility) x)) ?Z'"
  let ?J = "mat_map2 (\<lambda>x k. nf_mul x (Fin (real k))) ?W' K"
  let ?f = "\<lambda>d j. nf_map (\<lambda>e. fl_sub e 1)
                     (nf_map exp
                       (nf_add
                         (nf_add
                           (nf_mul (nf_sub (Fin drift)
                                      (nf_mul (Fin 0.5) (nf_map (\<lambda>v. v\<^sup>2) (Fin volatility))))
                              (Fin (1 / real_of_int days))) d) j))"
  let ?T = "mat_map2 ?f ?D ?J"
  let ?R = "map (map (nf_map (\<lambda>t. fl_add 1 t))) ?T"
  have mW': "is_matrix ?r ?c ?W'" by (rule is_matrix_map[OF mW])
  have mZ': "is_matrix ?r ?c ?Z'" by (rule is_matrix_map[OF mZ])
  have mD: "is_matrix ?r ?c ?D" by (rule is_matrix_map[OF mZ'])
  have mJ: "is_matrix ?r ?c ?J" by (rule is_matrix_mat_map2[OF mW' mK])
  have mT: "is_matrix ?r ?c ?T" by (rule is_matrix_mat_map2[OF mD mJ])
  have eJ: "?J ! i ! j = Fin ((jump_size_mean + jump_size_std * (W ! i ! j)) * real (K ! i ! j))"
    by (subst mat_map2_nth[OF mW' mK i j], subst mat_map_nth[OF mW i j]) simp
  have eD: "?D ! i ! j = Fin (volatility * (0 + sqrt (1 / real_of_int days) * (Z ! i ! j)))"
    by (subst mat_map_nth[OF mZ' i j], subst mat_map_nth[OF mZ i j]) simp
  have eT: "?T ! i ! j = ?f (?D ! i ! j) (?J ! i ! j)"
    by (rule mat_map2_nth[OF mD mJ i j])
  have eR: "?R ! i ! j = nf_map (\<lambda>t. fl_add 1 t) (?T ! i ! j)"
    by (rule mat_map_nth[OF mT i j])
  have val: "?R ! i ! j =
      Fin (fl_add 1
            (fl_sub
              (exp ((drift - 0.5 * volatility\<^sup>2) * (1 / real_of_int days)
                    + volatility * (0 + sqrt (1 / real_of_int days) * (Z ! i ! j))
                    + (jump_size_mean + jump_size_std * (W ! i ! j)) * real (K ! i ! j)))
              1))"
    unfolding eR eT eD eJ by simp
  have s: "case Fin jump_size_std of NaN \<Rightarrow> True | Fin s \<Rightarrow> 0 \<le> s" using std by simp
  have "generate_jump_diffusion_returns G g (Fin jump_size_mean) (Fin jump_size_std)
          (Fin jump_intensity) (Fin drift) (Fin volatility) days simulations = Inr (?R, g3)"
    by (rule jump_diffusion_value[OF wb s int days sims k w z])
  then show ?thesis using val by blast
qed

text \<open>
  C9 does not hold of the code. With drift -10080, volatility 0, jump size mean and standard
  deviation 0 and 252 days, the sum of the three terms is -40 in every row and column. The
  exponential of -40 is below two to the -54, so line 102 rounds its difference with one to
  -1 and line 103 returns exactly 0: the growth factor is neither the exponential nor
  strictly positive.
\<close>

theorem jump_diffusion_growth_factor_zero:
  assumes wb: "well_behaved G"
    and int: "0 \<le> jump_intensity" "jump_intensity \<le> 1"
    and sims: "0 \<le> simulations"
    and i: "i < 252" and j: "j < nat simulations"
  shows "\<exists>R g'. generate_jump_diffusion_returns G g (Fin 0) (Fin 0) (Fin jump_intensity)
                  (Fin (- 10080)) (Fin 0) 252 simulations = Inr (R, g') \<and>
                R ! i ! j = Fin 0"
proof -
  obtain K g1 where k: "poisson G (jump_intensity * (1 / real_of_int 252)) (nat 252)
                          (nat simulations) (seeded G 42) = (K, g1)"
    by (cases "poisson G (jump_intensity * (1 / real_of_int 252)) (nat 252)
                 (nat simulations) (seeded G 42)")
  obtain W g2 where w: "standard_normal G (nat 252) (nat simulations) g1 = (W, g2)"
    by (cases "standard_normal G (nat 252) (nat simulations) g1")
  obtain Z g3 where z: "standard_normal G (nat 252) (nat simulations) g2 = (Z, g3)"
    by (cases "standard_normal G (nat 252) (nat simulations) g2")
  have i': "i < nat 252" using i by simp
  obtain R where R:
    "generate_jump_diffusion_returns G g (Fin 0) (Fin 0) (Fin jump_intensity)
       (Fin (- 10080)) (Fin 0) 252 simulations = Inr (R, g3)"
    "R ! i ! j =
       Fin (fl_add 1
             (fl_sub
               (exp ((- 10080 - 0.5 * 0\<^sup>2) * (1 / real_of_int 252)
                     + 0 * (0 + sqrt (1 / real_of_int 252) * (Z ! i ! j))
                     + (0 + 0 * (W ! i ! j)) * real (K ! i ! j)))
               1))"
    using jump_diffusion_entry[OF wb _ int _ sims k w z i' j, of 0 g 0 "- 10080" 0] by auto
  have x: "(- 10080 - 0.5 * 0\<^sup>2) * (1 / real_of_int 252)
           + 0 * (0 + sqrt (1 / real_of_int 252) * (Z ! i ! j))
           + (0 + 0 * (W ! i ! j)) * real (K ! i ! j) = - 40"
    by simp
  have "fl_add 1 (fl_sub (exp (- 40 :: real)) 1) = 0"
    by (rule growth_factor_cancels[OF _ exp_minus_40_small]) simp
  then have "R ! i ! j = Fin 0" unfolding R(2) x by simp
  then show ?thesis using R(1) by blast
qed

theorem jump_diffusion_growth_factor_zero_witness:
  "well_behaved counter_generator \<and> (0::real) \<le> 1 / 2 \<and> (1 / 2 :: real) \<le> 1 \<and> (0::int) \<le> 1 \<and>
   (0::nat) < 252 \<and> (0::nat) < nat 1 \<and>
   (\<exists>R g'. generate_jump_diffusion_returns counter_generator 7 (Fin 0) (Fin 0) (Fin (1 / 2))
              (Fin (- 10080)) (Fin 0) 252 1 = Inr (R, g') \<and>
            R ! 0 ! 0 = Fin 0)"
proof -
  have h1: "well_behaved counter_generator" by (rule counter_generator_well_behaved)
  have h2: "(0::real) \<le> 1 / 2" by simp
  have h3: "(1 / 2 :: real) \<le> 1" by simp
  have h4: "(0::int) \<le> 1" by simp
  have h5: "(0::nat) < 252" by simp
  have h6: "(0::nat) < nat 1" by simp
  show ?thesis
    using h1 h2 h3 h4 h5 h6 jump_diffusion_growth_factor_zero[OF h1 h2 h3 h4 h5 h6, of 7]
    by blast
qed

text \<open>
  C3. Two calls with identical arguments return identical results, matrix and generator
  state alike, whatever state the global generator was in before each call: both functions
  seed it first.
\<close>

theorem simulation_deterministic:
  "monte_carlo_simulation G g initial_price drift volatility distribution simulations jump_params =
     monte_carlo_simulation G g' initial_price drift volatility distribution simulations jump_params \<and>
   generate_jump_diffusion_returns G g jump_size_mean jump_size_std jump_intensity
       drift volatility days simulations =
     generate_jump_diffusion_returns G g' jump_size_mean jump_size_std jump_intensity
       drift volatility days simulations"
  by (simp add: monte_carlo_simulation_def generate_jump_diffusion_returns_def np_random_seed_def)

text \<open>
  C5, as the code has it. With the jump-diffusion model and no jump parameters the call
  returns no matrix: it raises UnboundLocalError, at the read of the daily returns that no
  branch has bound.
\<close>

theorem jump_diffusion_without_params:
  "monte_carlo_simulation G g initial_price drift volatility ''jump_diffusion'' simulations None =
     Inl UnboundLocalError"
  by (simp add: monte_carlo_simulation_def daily_returns_of_def truthy_def)

text \<open>
  C5, as the specification states it, fails: the error raised for the jump-diffusion model without
  jump parameters is not UnsupportedModelError.
\<close>

theorem jump_diffusion_without_params_counterexample:
  "monte_carlo_simulation counter_generator 0 102 (Fin (1 / 100)) (Fin (1 / 50)) ''jump_diffusion''
     30 None \<noteq> Inl UnsupportedModelError"
  by (simp add: monte_carlo_simulation_def daily_returns_of_def truthy_def)

text \<open>
  C10. With the jump-diffusion model and an empty dictionary of jump parameters the
  jump-diffusion branch is not taken: the call raises UnboundLocalError, exactly as a call
  with a model tag that is none of the three known ones does, and not UnsupportedModelError.
\<close>

theorem falsy_jump_params_fall_through:
  assumes "tag \<notin> {''lognormal'', ''normal'', ''jump_diffusion''}"
  shows "monte_carlo_simulation G g initial_price drift volatility ''jump_diffusion'' simulations
           (Some []) = Inl UnboundLocalError \<and>
         monte_carlo_simulation G g initial_price drift volatility ''jump_diffusion'' simulations
           (Some []) =
         monte_carlo_simulation G g initial_price drift volatility tag simulations jump_params \<and>
         monte_carlo_simulation G g initial_price drift volatility ''jump_diffusion'' simulations
           (Some []) \<noteq> Inl UnsupportedModelError"
proof -
  have t: "tag \<noteq> ''lognormal''" "tag \<noteq> ''normal''" "tag \<noteq> ''jump_diffusion''"
    using assms by blast+
  have a: "daily_returns_of G (seeded G 42) drift volatility tag 252 simulations jump_params =
             Inl UnboundLocalError"
    unfolding daily_returns_of_def using t by (simp only: if_False simp_thms)
  have b: "daily_returns_of G (seeded G 42) drift volatility ''jump_diffusion'' 252 simulations
             (Some []) = Inl UnboundLocalError"
    by (simp add: daily_returns_of_def truthy_def)
  show ?thesis
    by (simp add: monte_carlo_simulation_def np_random_seed_def a b)
qed

theorem falsy_jump_params_fall_through_witness:
  "''student_t'' \<notin> {''lognormal'', ''normal'', ''jump_diffusion''} \<and>
   monte_carlo_simulation counter_generator 7 102 (Fin (1 / 100)) (Fin (1 / 50)) ''jump_diffusion'' 30
     (Some []) = Inl UnboundLocalError \<and>
   monte_carlo_simulation counter_generator 7 102 (Fin (1 / 100)) (Fin (1 / 50)) ''jump_diffusion'' 30
     (Some []) =
   monte_carlo_simulation counter_generator 7 102 (Fin (1 / 100)) (Fin (1 / 50)) ''student_t'' 30 None"
proof -
  have h: "''student_t'' \<notin> {''lognormal'', ''normal'', ''jump_diffusion''}" by simp
  note t = falsy_jump_params_fall_through[OF h,
      of counter_generator 7 102 "Fin (1 / 100)" "Fin (1 / 50)" 30 None]
  show ?thesis
    by (intro conjI h conjunct1[OF t] conjunct1[OF conjunct2[OF t]])
qed

end
